theory Spec2Isabelle
  imports Main "HOL-Library.Char_ord" "HOL-Library.List_Lexorder" "HOL-Library.Product_Lexorder"
    "HOL-Library.Multiset"
begin

section \<open>Data of the alignment processor (src/src/alignment_processor.py)\<close>

text \<open>
  Genomic coordinates are Python integers; an exon, a block or a genic region is a pair
  \<open>(start, end)\<close>.
\<close>

type_synonym interval = "int \<times> int"

text \<open>
  The fields of a pysam alignment that \<open>alignment_processor.py\<close> reads. \<open>cigartuples\<close> is the
  list of \<open>(operation, length)\<close> pairs.
\<close>

record AlignedSegment =
  query_name :: string
  reference_id :: int
  reference_start :: int
  cigartuples :: "(int \<times> int) list"
  is_supplementary :: bool
  is_secondary :: bool
  is_reverse :: bool

text \<open>
  The object returned by \<open>polya_finder.detect_polya\<close>: the four positions the processor reads
  and shifts; \<open>-1\<close> stands for "not found".
\<close>

record PolyAInfo =
  external_polya_pos :: int
  external_polyt_pos :: int
  internal_polya_pos :: int
  internal_polyt_pos :: int

text \<open>
  The object returned by \<open>profile_constructor.construct_profiles\<close>, as far as the processor
  reads it: \<open>read_exon_profile.gene_profile\<close>, \<open>read_intron_profile.gene_profile\<close> and
  \<open>read_intron_profile.read_profile\<close>.
\<close>

record MappedReadProfile =
  gene_profile :: "int list"
  read_profile :: "int list"

record CombinedReadProfiles =
  read_exon_profile :: MappedReadProfile
  read_intron_profile :: MappedReadProfile

text \<open>
  The members of \<open>MatchEventSubtype\<close> that the repository's files under src/ name
  (\<open>aligned_polya_tail\<close> in the processor, the others in the tests of the assigner).
\<close>

datatype MatchEventSubtype =
    mono_exon_match
  | mono_exonic
  | unspliced_intron_retention
  | incomplete_intron_retention_left
  | incomplete_intron_retention_right
  | intron_retention
  | extra_intron
  | extra_intron_known
  | extra_intron_flanking_left
  | extra_intron_flanking_right
  | exon_skipping_novel_intron
  | exon_gain_novel
  | intron_shift
  | none
  | aligned_polya_tail

text \<open>
  \<open>MatchEvent(subtype)\<close>: the processor passes the subtype only, so the two positions of the
  event keep their defaults, written \<open>None\<close> here.
\<close>

record MatchEvent =
  event_type :: MatchEventSubtype
  isoform_position :: "int option"
  read_position :: "int option"

definition MatchEvent_init :: "MatchEventSubtype \<Rightarrow> MatchEvent" where
  "MatchEvent_init t = \<lparr>event_type = t, isoform_position = None, read_position = None\<rparr>"

datatype ReadAssignmentType = unique | ambiguous | novel | intergenic | noninformative

text \<open>
  Modelled from the spec: class \<open>ReadAssignment\<close> is declared in src/long_read_assigner.py,
  which is not among the sources. The record holds the read id and the assignment class given to
  the constructor (\<open>None\<close> when the processor passes \<open>None\<close>), the assigned isoform ids and the
  match events the spec lists, and every attribute that \<open>process_single_file\<close> assigns; an
  attribute that has not been assigned yet is \<open>None\<close>.
\<close>

record ReadAssignment =
  read_id :: string
  assignment_type :: "ReadAssignmentType option"
  isoform_ids :: "string list"
  match_events :: "MatchEvent list"
  polyA_found :: "bool option"
  polya_info :: "PolyAInfo option"
  cage_found :: "bool option"
  exons :: "interval list option"
  read_group :: "string option"
  mapped_strand :: "string option"
  chr_id :: "string option"
  multimapper :: "bool option"
  exon_gene_profile :: "int list option"
  intron_gene_profile :: "int list option"
  introns_match :: "bool option"
  additional_info :: "(string \<times> int) list"

definition ReadAssignment_init :: "string \<Rightarrow> ReadAssignmentType option \<Rightarrow> ReadAssignment" where
  "ReadAssignment_init rid t =
     \<lparr>read_id = rid, assignment_type = t, isoform_ids = [], match_events = [],
      polyA_found = None, polya_info = None, cage_found = None, exons = None,
      read_group = None, mapped_strand = None, chr_id = None, multimapper = None,
      exon_gene_profile = None, intron_gene_profile = None, introns_match = None,
      additional_info = []\<rparr>"

text \<open>
  \<open>class AlignmentInfo\<close>. When the alignment has no exons, \<open>__init__\<close> returns before it sets
  \<open>read_start\<close> and \<open>read_end\<close>: the two attributes are options, \<open>None\<close> when unset, and reading
  an unset one is an \<open>AttributeError\<close> below. \<open>polya_info\<close> and \<open>combined_profile\<close> start as
  Python's \<open>None\<close>. (After the early return \<open>polya_info\<close>, \<open>exons_changed\<close>, \<open>cage_hits\<close>
  and \<open>combined_profile\<close> are unset as well; the processor reads none of them for such an
  object, and the record gives them their initial values.)
\<close>

record AlignmentInfo =
  alignment_of :: AlignedSegment
  read_exons :: "interval list"
  read_blocks :: "interval list"
  cigar_blocks :: "interval list"
  read_start :: "int option"
  read_end :: "int option"
  ai_polya_info :: "PolyAInfo option"
  exons_changed :: bool
  cage_hits :: "interval list"
  combined_profile :: "CombinedReadProfiles option"

text \<open>The parameters (\<open>self.params\<close>) that the processing of a file reads.\<close>

record Params =
  no_secondary :: bool
  needs_reference :: bool
  cage :: "string option"
  count_exons :: bool
  sqanti_output :: bool
  indel_near_splice_site_dist :: int

text \<open>
  The code the processor calls and the sources do not hold: \<open>get_read_blocks\<close>, the poly-A
  finder and fixer, \<open>shift_polya\<close> and \<open>shift_polyt\<close>, the CAGE finder, the profile
  constructor, the assigner, the read grouper and two methods of \<open>ReadAssignment\<close>. Each is a
  parameter: what is proved holds whatever they compute. They are taken to return a value and to
  leave their arguments as they are.
\<close>

record Collaborators =
  get_read_blocks :: "int \<Rightarrow> (int \<times> int) list \<Rightarrow> interval list \<times> interval list \<times> interval list"
  detect_polya :: "AlignedSegment \<Rightarrow> PolyAInfo"
  correct_read_info :: "interval list \<Rightarrow> PolyAInfo \<Rightarrow> int \<times> int"
  shift_polya :: "interval list \<Rightarrow> int \<Rightarrow> int \<Rightarrow> int"
  shift_polyt :: "interval list \<Rightarrow> int \<Rightarrow> int \<Rightarrow> int"
  find_cage_peak :: "AlignedSegment \<Rightarrow> interval list"
  construct_profiles :: "interval list \<Rightarrow> PolyAInfo option \<Rightarrow> interval list \<Rightarrow> CombinedReadProfiles"
  assign_to_isoform :: "string \<Rightarrow> AlignmentInfo \<Rightarrow> ReadAssignment"
  add_match_attribute :: "ReadAssignment \<Rightarrow> MatchEvent \<Rightarrow> ReadAssignment"
  set_additional_info :: "ReadAssignment \<Rightarrow> string \<Rightarrow> int \<Rightarrow> ReadAssignment"
  get_group_id :: "AlignedSegment \<Rightarrow> string"

text \<open>The fields of \<open>gene_info\<close> that the processing of a file reads or writes.\<close>

record GeneInfo =
  gi_chr_id :: string
  genic_regions :: "interval list"
  all_read_region_start :: int
  all_read_region_end :: int

text \<open>
  What the logger receives: one constructor per message of the source, with the values of the
  message as arguments. Only \<open>Warning_no_aligned_exons\<close> is logged at level warning, the
  others at level debug.
\<close>

datatype LogRecord =
    Debug_processing_read string
  | Warning_no_aligned_exons string
  | Debug_read_exons "interval list"
  | Debug_trimming_polyA int "interval list"
  | Debug_trimming_polyT int "interval list"
  | Debug_finished_read string

text \<open>
  The state that \<open>process_single_file\<close> changes: the processor's \<open>gene_info\<close> and
  \<open>assignment_storage\<close>, the local set \<open>processed_reads\<close>, the logger's output, and the
  calls made to \<open>assigner.assign_to_isoform\<close> (read id and alignment info, in order).
\<close>

record ProcessorState =
  gene_info :: GeneInfo
  assignment_storage :: "ReadAssignment list"
  processed_reads :: "(string \<times> int \<times> int) set"
  logged :: "LogRecord list"
  assigner_calls :: "(string \<times> AlignmentInfo) list"

datatype PyError = AttributeError

section \<open>\<open>AlignmentInfo\<close>\<close>

definition AlignmentInfo_init :: "Collaborators \<Rightarrow> AlignedSegment \<Rightarrow> AlignmentInfo" where
  "AlignmentInfo_init C a =
     (case get_read_blocks C (reference_start a) (cigartuples a) of
        (ex, bl, cb) \<Rightarrow>
          \<lparr>alignment_of = a, read_exons = ex, read_blocks = bl, cigar_blocks = cb,
           read_start = (if ex = [] then None else Some (fst (hd ex))),
           read_end = (if ex = [] then None else Some (snd (last ex))),
           ai_polya_info = None, exons_changed = False, cage_hits = [],
           combined_profile = None\<rparr>)"

text \<open>
  \<open>add_polya_info\<close>. \<open>xs[:-k]\<close> with \<open>k > 0\<close> keeps the first \<open>len(xs) - k\<close> elements (none
  when \<open>k\<close> exceeds the length) and \<open>xs[k:]\<close> drops the first \<open>k\<close>. The second component of the
  result is what the two \<open>logger.debug\<close> calls emit.
\<close>

definition add_polya_info :: "Collaborators \<Rightarrow> AlignmentInfo \<Rightarrow> AlignmentInfo \<times> LogRecord list" where
  "add_polya_info C ai =
     (let p0 = detect_polya C (alignment_of ai) in
      case correct_read_info C (read_exons ai) p0 of
        (polya_exon_count, polyt_exon_count) \<Rightarrow>
          let (p1, ex1, ch1, log1) =
                (if polya_exon_count > 0 then
                   (let pa = p0\<lparr>internal_polya_pos :=
                                shift_polya C (read_exons ai) polya_exon_count (internal_polya_pos p0)\<rparr>;
                        pb = pa\<lparr>external_polya_pos :=
                                shift_polya C (read_exons ai) polya_exon_count (external_polya_pos pa)\<rparr>;
                        ex = take (length (read_exons ai) - nat polya_exon_count) (read_exons ai)
                    in (pb, ex, True, [Debug_trimming_polyA polya_exon_count ex]))
                 else (p0, read_exons ai, exons_changed ai, []));
              (p2, ex2, ch2, log2) =
                (if polyt_exon_count > 0 then
                   (let pa = p1\<lparr>internal_polyt_pos :=
                                shift_polyt C ex1 polyt_exon_count (internal_polyt_pos p1)\<rparr>;
                        pb = pa\<lparr>external_polyt_pos :=
                                shift_polyt C ex1 polyt_exon_count (external_polyt_pos pa)\<rparr>;
                        ex = drop (nat polyt_exon_count) ex1
                    in (pb, ex, True, log1 @ [Debug_trimming_polyT polyt_exon_count ex]))
                 else (p1, ex1, ch1, log1))
          in (ai\<lparr>ai_polya_info := Some p2, read_exons := ex2, exons_changed := ch2\<rparr>, log2))"

definition add_cage_info :: "Collaborators \<Rightarrow> AlignmentInfo \<Rightarrow> AlignmentInfo" where
  "add_cage_info C ai = ai\<lparr>cage_hits := find_cage_peak C (alignment_of ai)\<rparr>"

definition construct_profiles_info :: "Collaborators \<Rightarrow> AlignmentInfo \<Rightarrow> AlignmentInfo" where
  "construct_profiles_info C ai =
     ai\<lparr>combined_profile :=
          Some (construct_profiles C (read_exons ai) (ai_polya_info ai) (cage_hits ai))\<rparr>"

section \<open>\<open>LongReadAlignmentProcessor\<close>\<close>

text \<open>
  \<open>count_indel_stats\<close>: the first loop counts the insertions and deletions (operations 1 and 2)
  and collects the indices of the introns (operation 3); the second loop looks around every
  intron, and each of its two conditions adds one.
\<close>

definition indel_events :: "int list" where
  "indel_events = [1, 2]"

definition count_indel_stats :: "Params \<Rightarrow> AlignedSegment \<Rightarrow> int \<times> int" where
  "count_indel_stats P a =
     (let ct = cigartuples a;
          cigar_event_count = int (length ct);
          (indel_count, intron_cigar_positions) =
            fold (\<lambda>i (c, ps).
                    if fst (ct ! i) \<in> set indel_events then (c + 1, ps)
                    else if fst (ct ! i) = 3 then (c, ps @ [i])
                    else (c, ps))
                 [0 ..< length ct] (0, []);
          junctions_with_indels =
            fold (\<lambda>i j.
                    (let j1 =
                       (if (i > 0 \<and> fst (ct ! (i - 1)) \<in> set indel_events) \<or>
                           (int i < cigar_event_count - 1 \<and> fst (ct ! (i + 1)) \<in> set indel_events)
                        then j + 1 else j)
                     in if (i > 1 \<and> fst (ct ! (i - 2)) \<in> set indel_events \<and>
                            fst (ct ! (i - 1)) \<in> {0, 7, 8} \<and>
                            snd (ct ! (i - 1)) \<le> indel_near_splice_site_dist P) \<or>
                           (int i < cigar_event_count - 2 \<and> fst (ct ! (i + 2)) \<in> set indel_events \<and>
                            fst (ct ! (i + 1)) \<in> {0, 7, 8} \<and>
                            snd (ct ! (i + 1)) \<le> indel_near_splice_site_dist P)
                        then j1 + 1 else j1))
                 intron_cigar_positions 0
      in (indel_count, junctions_with_indels))"

text \<open>\<open>if self.params.cage:\<close> the parameter is \<open>None\<close> or a file name, and an empty name is false.\<close>

definition cage_given :: "Params \<Rightarrow> bool" where
  "cage_given P = (case cage P of None \<Rightarrow> False | Some f \<Rightarrow> f \<noteq> [])"

text \<open>
  The body of the loop of \<open>process_single_file\<close> from the line after
  \<open>processed_reads.add(read_tuple)\<close> to its end: the read is profiled, assigned, and its
  assignment is completed and appended. \<open>rs\<close> and \<open>re\<close> are \<open>alignment_info.read_start\<close> and
  \<open>alignment_info.read_end\<close>.
\<close>

definition assign_read ::
  "Collaborators \<Rightarrow> Params \<Rightarrow> ProcessorState \<Rightarrow> AlignedSegment \<Rightarrow> AlignmentInfo \<Rightarrow> int \<Rightarrow> int
     \<Rightarrow> PyError + ProcessorState" where
  "assign_read C P st a ai rs re =
     (let rid = query_name a;
          st1 = st\<lparr>logged := logged st @ [Debug_read_exons (read_exons ai)]\<rparr>;
          g = gene_info st1;
          g1 = (if needs_reference P \<and> rs < all_read_region_start g
                then g\<lparr>all_read_region_start := rs\<rparr> else g);
          g2 = (if needs_reference P \<and> re > all_read_region_end g1
                then g1\<lparr>all_read_region_end := re\<rparr> else g1);
          (ai1, trimmed) = add_polya_info C ai;
          ai2 = (if cage_given P then add_cage_info C ai1 else ai1);
          ai3 = construct_profiles_info C ai2;
          st2 = st1\<lparr>gene_info := g2, logged := logged st1 @ trimmed,
                    assigner_calls := assigner_calls st1 @ [(rid, ai3)]\<rparr>;
          r0 = assign_to_isoform C rid ai3;
          r1 = (if exons_changed ai3
                then add_match_attribute C r0 (MatchEvent_init aligned_polya_tail) else r0)
      in case ai_polya_info ai3 of
           None \<Rightarrow> Inl AttributeError
         | Some pinfo \<Rightarrow>
             (let r2 = r1\<lparr>polyA_found := Some (external_polya_pos pinfo \<noteq> - 1 \<or>
                                               external_polyt_pos pinfo \<noteq> - 1 \<or>
                                               internal_polya_pos pinfo \<noteq> - 1 \<or>
                                               internal_polyt_pos pinfo \<noteq> - 1),
                          polya_info := Some pinfo,
                          cage_found := Some (length (cage_hits ai3) > 0),
                          exons := Some (read_exons ai3),
                          read_group := Some (get_group_id C a),
                          mapped_strand := Some (if is_reverse a then ''-'' else ''+''),
                          chr_id := Some (gi_chr_id g2),
                          multimapper := Some (is_secondary a)\<rparr>
              in case combined_profile ai3 of
                   None \<Rightarrow> (if count_exons P \<or> sqanti_output P then Inl AttributeError
                             else Inr (st2\<lparr>assignment_storage := assignment_storage st2 @ [r2],
                                           logged := logged st2 @ [Debug_finished_read rid]\<rparr>))
                 | Some cp \<Rightarrow>
                     (let r3 = (if count_exons P
                                then r2\<lparr>exon_gene_profile := Some (gene_profile (read_exon_profile cp)),
                                        intron_gene_profile := Some (gene_profile (read_intron_profile cp))\<rparr>
                                else r2);
                          r4 = (if sqanti_output P
                                then (case count_indel_stats P a of
                                        (indel_count, junctions_with_indels) \<Rightarrow>
                                          (set_additional_info C
                                             (set_additional_info C r3 ''indel_count'' indel_count)
                                             ''junctions_with_indels'' junctions_with_indels)
                                          \<lparr>introns_match :=
                                             Some (list_all (\<lambda>e. e = 1)
                                                     (read_profile (read_intron_profile cp)))\<rparr>)
                                else r3)
                      in Inr (st2\<lparr>assignment_storage := assignment_storage st2 @ [r4],
                                   logged := logged st2 @ [Debug_finished_read rid]\<rparr>))))"

text \<open>
  One iteration of the inner loop of \<open>process_single_file\<close>, for one alignment. Each
  \<open>continue\<close> of the source returns the state reached so far.
\<close>

definition process_alignment ::
  "Collaborators \<Rightarrow> Params \<Rightarrow> ProcessorState \<Rightarrow> AlignedSegment \<Rightarrow> PyError + ProcessorState" where
  "process_alignment C P st a =
     (let rid = query_name a in
      if reference_id a = - 1 then
        Inr (st\<lparr>assignment_storage := assignment_storage st @ [ReadAssignment_init rid None]\<rparr>)
      else if is_supplementary a then Inr st
      else if no_secondary P \<and> is_secondary a then Inr st
      else
        (let st1 = st\<lparr>logged := logged st @ [Debug_processing_read rid]\<rparr>;
             ai = AlignmentInfo_init C a
         in if read_exons ai = [] then
              Inr (st1\<lparr>logged := logged st1 @ [Warning_no_aligned_exons rid]\<rparr>)
            else
              (case read_start ai of
                 None \<Rightarrow> Inl AttributeError
               | Some rs \<Rightarrow>
                   (case read_end ai of
                      None \<Rightarrow> Inl AttributeError
                    | Some re \<Rightarrow>
                        if (rid, rs, re) \<in> processed_reads st1 then Inr st1
                        else assign_read C P
                               (st1\<lparr>processed_reads := insert (rid, rs, re) (processed_reads st1)\<rparr>)
                               a ai rs re))))"

text \<open>The inner loop, over the alignments that one \<open>fetch\<close> returns.\<close>

fun process_alignments ::
  "Collaborators \<Rightarrow> Params \<Rightarrow> ProcessorState \<Rightarrow> AlignedSegment list \<Rightarrow> PyError + ProcessorState" where
  "process_alignments C P st [] = Inr st"
| "process_alignments C P st (a # as) =
     (case process_alignment C P st a of
        Inl e \<Rightarrow> Inl e
      | Inr st' \<Rightarrow> process_alignments C P st' as)"

text \<open>
  A BAM file is what its \<open>fetch(chr_id, start, end)\<close> returns: the alignments of the region, in
  the file's order.
\<close>

type_synonym BamFile = "string \<Rightarrow> int \<Rightarrow> int \<Rightarrow> AlignedSegment list"

text \<open>The outer loop, over \<open>gene_info.genic_regions\<close>.\<close>

fun process_regions ::
  "Collaborators \<Rightarrow> Params \<Rightarrow> BamFile \<Rightarrow> ProcessorState \<Rightarrow> interval list \<Rightarrow> PyError + ProcessorState" where
  "process_regions C P bam st [] = Inr st"
| "process_regions C P bam st (genic_region # rest) =
     (case process_alignments C P st
             (bam (gi_chr_id (gene_info st)) (fst genic_region) (snd genic_region)) of
        Inl e \<Rightarrow> Inl e
      | Inr st' \<Rightarrow> process_regions C P bam st' rest)"

text \<open>\<open>process_single_file\<close>: \<open>processed_reads\<close> starts empty for every file.\<close>

definition process_single_file ::
  "Collaborators \<Rightarrow> Params \<Rightarrow> ProcessorState \<Rightarrow> BamFile \<Rightarrow> PyError + ProcessorState" where
  "process_single_file C P st bamfile_in =
     process_regions C P bamfile_in (st\<lparr>processed_reads := {}\<rparr>) (genic_regions (gene_info st))"

text \<open>
  The alignments of a file in the order the two loops visit them: the results of \<open>fetch\<close> for
  the genic regions, one after the other.
\<close>

definition fetched_alignments :: "BamFile \<Rightarrow> GeneInfo \<Rightarrow> AlignedSegment list" where
  "fetched_alignments bam g =
     concat (map (\<lambda>genic_region. bam (gi_chr_id g) (fst genic_region) (snd genic_region))
                 (genic_regions g))"

subsection \<open>The stations of one iteration\<close>

text \<open>
  An alignment reaches \<open>AlignmentInfo(alignment)\<close> (line 120) when none of the three
  \<open>continue\<close> statements before it fires.
\<close>

definition passes_filters :: "Params \<Rightarrow> AlignedSegment \<Rightarrow> bool" where
  "passes_filters P a =
     (reference_id a \<noteq> - 1 \<and> \<not> is_supplementary a \<and> \<not> (no_secondary P \<and> is_secondary a))"

text \<open>The exons that decoding the alignment yields: the first component of \<open>get_read_blocks\<close>.\<close>

definition decoded_exons :: "Collaborators \<Rightarrow> AlignedSegment \<Rightarrow> interval list" where
  "decoded_exons C a = fst (get_read_blocks C (reference_start a) (cigartuples a))"

text \<open>
  \<open>read_tuple\<close> of line 125, for an alignment that reaches that line: it passes the filters and
  has an exon. \<open>None\<close> for every other alignment.
\<close>

definition read_tuple :: "Collaborators \<Rightarrow> Params \<Rightarrow> AlignedSegment \<Rightarrow> (string \<times> int \<times> int) option" where
  "read_tuple C P a =
     (if passes_filters P a \<and> decoded_exons C a \<noteq> []
      then Some (query_name a, fst (hd (decoded_exons C a)), snd (last (decoded_exons C a)))
      else None)"

text \<open>
  The number of assignments one iteration appends, given the tuples seen so far: one for an
  unmapped alignment, one for an alignment whose tuple is new, none otherwise.
\<close>

definition appended :: "Collaborators \<Rightarrow> Params \<Rightarrow> (string \<times> int \<times> int) set \<Rightarrow> AlignedSegment \<Rightarrow> nat" where
  "appended C P seen a =
     (if reference_id a = - 1 then 1
      else case read_tuple C P a of None \<Rightarrow> 0 | Some t \<Rightarrow> if t \<in> seen then 0 else 1)"

subsection \<open>A small file to run the processor on\<close>

text \<open>
  Stand-ins for the absent collaborators: a decoder that makes one exon of the matched bases
  (operation 0) of the alignment and none when it has no matched base, a poly-A finder that finds
  nothing, and an assigner that calls every read unique.
\<close>

definition example_collaborators :: Collaborators where
  "example_collaborators =
     \<lparr>get_read_blocks =
        (\<lambda>start ct. (if list_ex (\<lambda>c. fst c = 0) ct
                      then [(start + 1, start + sum_list (map snd (filter (\<lambda>c. fst c = 0) ct)))]
                      else [], [], [])),
      detect_polya =
        (\<lambda>a. \<lparr>external_polya_pos = - 1, external_polyt_pos = - 1,
               internal_polya_pos = - 1, internal_polyt_pos = - 1\<rparr>),
      correct_read_info = (\<lambda>ex p. (0, 0)),
      shift_polya = (\<lambda>ex n pos. pos),
      shift_polyt = (\<lambda>ex n pos. pos),
      find_cage_peak = (\<lambda>a. []),
      construct_profiles =
        (\<lambda>ex p hits. \<lparr>read_exon_profile = \<lparr>gene_profile = [], read_profile = []\<rparr>,
                       read_intron_profile = \<lparr>gene_profile = [], read_profile = []\<rparr>\<rparr>),
      assign_to_isoform = (\<lambda>rid ai. ReadAssignment_init rid (Some unique)),
      add_match_attribute = (\<lambda>r e. r\<lparr>match_events := match_events r @ [e]\<rparr>),
      set_additional_info = (\<lambda>r k v. r\<lparr>additional_info := additional_info r @ [(k, v)]\<rparr>),
      get_group_id = (\<lambda>a. ''NA'')\<rparr>"

definition example_params :: Params where
  "example_params =
     \<lparr>no_secondary = True, needs_reference = False, cage = None, count_exons = False,
      sqanti_output = False, indel_near_splice_site_dist = 0\<rparr>"

definition example_mapped :: AlignedSegment where
  "example_mapped =
     \<lparr>query_name = ''read1'', reference_id = 0, reference_start = 50, cigartuples = [(0, 100)],
      is_supplementary = False, is_secondary = False, is_reverse = False\<rparr>"

text \<open>An alignment of soft-clipped bases only (operation 4): decoding it yields no exon.\<close>

definition example_no_exons :: AlignedSegment where
  "example_no_exons =
     \<lparr>query_name = ''read3'', reference_id = 0, reference_start = 70, cigartuples = [(4, 20)],
      is_supplementary = False, is_secondary = False, is_reverse = False\<rparr>"

text \<open>
  An unmapped alignment that is also flagged supplementary and secondary, and has no exon: each
  of the later checks would skip it.
\<close>

definition example_unmapped :: AlignedSegment where
  "example_unmapped =
     \<lparr>query_name = ''read2'', reference_id = - 1, reference_start = 0, cigartuples = [],
      is_supplementary = True, is_secondary = True, is_reverse = False\<rparr>"

definition example_bam :: BamFile where
  "example_bam chr s e =
     (if chr = ''chr1'' then [example_mapped, example_no_exons, example_unmapped, example_mapped]
      else [])"

definition example_state :: ProcessorState where
  "example_state =
     \<lparr>gene_info = \<lparr>gi_chr_id = ''chr1'', genic_regions = [(0, 1000)],
                    all_read_region_start = 0, all_read_region_end = 1000\<rparr>,
      assignment_storage = [], processed_reads = {}, logged = [], assigner_calls = []\<rparr>"

section \<open>The profile matcher (\<open>match_profile\<close>, \<open>find_matching_isoforms\<close>)\<close>

text \<open>
  Modelled from the spec: \<open>match_profile\<close> and \<open>find_matching_isoforms\<close> are methods of
  \<open>LongReadAssigner\<close> in src/long_read_assigner.py, which is not among the sources; the
  repository holds their tests only (src/tests/long_read_assigner/test_long_read_assigner.py).
  The definitions of this section follow section 4.2 of the spec. A profile is a list of
  integers, the isoform profiles are the items of the dictionary in its order, and a hint is a
  set of isoform ids or \<open>None\<close>.
\<close>

datatype MatcherError = ProfileLengthMismatch

text \<open>\<open>IsoformDiff(isoform_id, distance)\<close>.\<close>

type_synonym IsoformDiff = "string \<times> nat"

text \<open>
  Modelled from the spec: what one axis position adds to the distance. Read 1 against an
  isoform value other than 1 adds one, read -1 against isoform 1 adds one. The tests fix one
  combination that the spec's rule leaves at nought: read -1 against isoform -2 adds one
  (\<open>test_no_equals\<close> expects distance 1 for the read \<open>[-1, 1, -1, 0]\<close> against
  \<open>[-2, 1, -1, -1]\<close>, \<open>test_some_equals\<close> distance 2 for \<open>[0, 1, 1, -1, 0]\<close> against
  \<open>[1, -1, 1, -2, -2]\<close>). Every other combination adds nothing.
\<close>

definition position_difference :: "int \<Rightarrow> int \<Rightarrow> nat" where
  "position_difference r i =
     (if r = 1 \<and> i \<noteq> 1 then 1
      else if r = - 1 \<and> (i = 1 \<or> i = - 2) then 1
      else 0)"

text \<open>Modelled from the spec: the distance is the sum over the axis positions.\<close>

definition profile_distance :: "int list \<Rightarrow> int list \<Rightarrow> nat" where
  "profile_distance read_gene_profile isoform_profile =
     sum_list (map (\<lambda>(r, i). position_difference r i) (zip read_gene_profile isoform_profile))"

text \<open>Modelled from the spec: the candidates are restricted to the hint if one is provided.\<close>

definition in_hint :: "string set option \<Rightarrow> string \<Rightarrow> bool" where
  "in_hint hint isoform_id = (case hint of None \<Rightarrow> True | Some h \<Rightarrow> isoform_id \<in> h)"

text \<open>
  Modelled from the spec: \<open>match_profile\<close>. An empty read profile and a profile whose length
  differs from the read profile's are rejected with \<open>ProfileLengthMismatch\<close>; otherwise the
  candidates are ranked by distance, ties by isoform id (strings compare as in Python, character
  by character, a proper prefix first).
\<close>

definition match_profile ::
  "int list \<Rightarrow> (string \<times> int list) list \<Rightarrow> string set option \<Rightarrow> MatcherError + IsoformDiff list" where
  "match_profile read_gene_profile isoform_profiles hint =
     (if read_gene_profile = [] \<or>
         list_ex (\<lambda>(isoform_id, p). length p \<noteq> length read_gene_profile) isoform_profiles
      then Inl ProfileLengthMismatch
      else Inr (sort_key (\<lambda>(isoform_id, d). (d, isoform_id))
                  (map (\<lambda>(isoform_id, p). (isoform_id, profile_distance read_gene_profile p))
                       (filter (\<lambda>(isoform_id, p). in_hint hint isoform_id) isoform_profiles))))"

text \<open>
  Modelled from the spec: \<open>find_matching_isoforms\<close>, "ids with distance 0 from the above,
  sorted by id".
\<close>

definition find_matching_isoforms ::
  "int list \<Rightarrow> (string \<times> int list) list \<Rightarrow> string set option \<Rightarrow> MatcherError + string list" where
  "find_matching_isoforms read_gene_profile isoform_profiles hint =
     (case match_profile read_gene_profile isoform_profiles hint of
        Inl e \<Rightarrow> Inl e
      | Inr diffs \<Rightarrow> Inr (sort (map fst (filter (\<lambda>(isoform_id, d). d = 0) diffs))))"

text \<open>
  The rule of the spec as it is worded, for comparison with the tests: read 1 against an isoform
  value other than 1, or read -1 against isoform 1, and nothing else.
\<close>

definition claimed_position_difference :: "int \<Rightarrow> int \<Rightarrow> nat" where
  "claimed_position_difference r i = (if (r = 1 \<and> i \<noteq> 1) \<or> (r = - 1 \<and> i = 1) then 1 else 0)"

definition claimed_distance :: "int list \<Rightarrow> int list \<Rightarrow> nat" where
  "claimed_distance read_gene_profile isoform_profile =
     sum_list (map (\<lambda>(r, i). claimed_position_difference r i) (zip read_gene_profile isoform_profile))"


definition ranked_before :: "IsoformDiff \<Rightarrow> IsoformDiff \<Rightarrow> bool" where
  "ranked_before x y = (snd x < snd y \<or> (snd x = snd y \<and> fst x \<le> fst y))"

subsection \<open>Parameters of the tests of the matcher\<close>





definition test_hint_read :: "int list" where
  "test_hint_read = [- 1, 1, 1, 0]"

definition test_hint_profiles :: "(string \<times> int list) list" where
  "test_hint_profiles =
     [(''id1'', [- 1, 1, 1, - 1]), (''id2'', [1, 1, 1, - 1]), (''id3'', [- 1, - 1, - 1, 1])]"

definition test_hint_hint :: "string set" where
  "test_hint_hint = {''id2'', ''id3''}"

definition test_all_equals_read :: "int list" where
  "test_all_equals_read = [- 1, 1, - 1, 0]"

definition test_all_equals_profiles :: "(string \<times> int list) list" where
  "test_all_equals_profiles = [(''id1'', [- 1, 1, - 1, - 1]), (''id2'', [- 1, 1, - 1, - 2])]"

section \<open>Properties of the alignment processor\<close>

lemma AlignmentInfo_init_exons:
  "read_exons (AlignmentInfo_init C a) = fst (get_read_blocks C (reference_start a) (cigartuples a))"
  by (simp add: AlignmentInfo_init_def split: prod.splits)

lemma AlignmentInfo_init_start:
  "read_exons (AlignmentInfo_init C a) \<noteq> [] \<Longrightarrow>
     read_start (AlignmentInfo_init C a) = Some (fst (hd (read_exons (AlignmentInfo_init C a))))"
  by (simp add: AlignmentInfo_init_def split: prod.splits)

lemma AlignmentInfo_init_end:
  "read_exons (AlignmentInfo_init C a) \<noteq> [] \<Longrightarrow>
     read_end (AlignmentInfo_init C a) = Some (snd (last (read_exons (AlignmentInfo_init C a))))"
  by (simp add: AlignmentInfo_init_def split: prod.splits)

lemma add_polya_info_Some: "add_polya_info C ai = (ai1, tr) \<Longrightarrow> \<exists>p. ai_polya_info ai1 = Some p"
  by (auto simp: add_polya_info_def Let_def split: prod.splits if_splits)

lemma assign_read_total: "\<exists>st'. assign_read C P st a ai rs re = Inr st'"
proof -
  obtain ai1 tr where A: "add_polya_info C ai = (ai1, tr)" by (cases "add_polya_info C ai")
  then obtain p where Pp: "ai_polya_info ai1 = Some p" using add_polya_info_Some by blast
  show ?thesis
    unfolding assign_read_def Let_def
    by (simp add: A Pp add_cage_info_def construct_profiles_info_def split: prod.splits)
qed

lemma assign_read_effect:
  assumes "assign_read C P st a ai rs re = Inr st'"
  shows "processed_reads st' = processed_reads st"
    and "\<exists>r. assignment_storage st' = assignment_storage st @ [r]"
    and "\<exists>ai'. assigner_calls st' = assigner_calls st @ [(query_name a, ai')]"
proof -
  obtain ai1 tr where A: "add_polya_info C ai = (ai1, tr)" by (cases "add_polya_info C ai")
  then obtain p where Pp: "ai_polya_info ai1 = Some p" using add_polya_info_Some by blast
  have "processed_reads (projr (assign_read C P st a ai rs re)) = processed_reads st"
    unfolding assign_read_def Let_def
    by (simp add: A Pp add_cage_info_def construct_profiles_info_def split: prod.splits)
  with assms show "processed_reads st' = processed_reads st" by simp
  have "butlast (assignment_storage (projr (assign_read C P st a ai rs re))) = assignment_storage st
        \<and> assignment_storage (projr (assign_read C P st a ai rs re)) \<noteq> []"
    unfolding assign_read_def Let_def
    by (simp add: A Pp add_cage_info_def construct_profiles_info_def split: prod.splits)
  with assms have "butlast (assignment_storage st') = assignment_storage st" "assignment_storage st' \<noteq> []"
    by simp_all
  then show "\<exists>r. assignment_storage st' = assignment_storage st @ [r]"
    by (metis append_butlast_last_id)
  have "butlast (assigner_calls (projr (assign_read C P st a ai rs re))) = assigner_calls st
        \<and> assigner_calls (projr (assign_read C P st a ai rs re)) \<noteq> []
        \<and> fst (last (assigner_calls (projr (assign_read C P st a ai rs re)))) = query_name a"
    unfolding assign_read_def Let_def
    by (simp add: A Pp add_cage_info_def construct_profiles_info_def split: prod.splits)
  with assms have "butlast (assigner_calls st') = assigner_calls st" "assigner_calls st' \<noteq> []"
     "fst (last (assigner_calls st')) = query_name a"
    by simp_all
  then show "\<exists>ai'. assigner_calls st' = assigner_calls st @ [(query_name a, ai')]"
    by (metis append_butlast_last_id prod.collapse)
qed


lemma process_alignment_unmapped:
  "reference_id a = - 1 \<Longrightarrow>
     process_alignment C P st a =
       Inr (st\<lparr>assignment_storage := assignment_storage st @ [ReadAssignment_init (query_name a) None]\<rparr>)"
  by (simp add: process_alignment_def)

lemma process_alignment_filtered:
  "reference_id a \<noteq> - 1 \<Longrightarrow> \<not> passes_filters P a \<Longrightarrow> process_alignment C P st a = Inr st"
  by (auto simp: process_alignment_def passes_filters_def Let_def)

lemma process_alignment_no_exons:
  "passes_filters P a \<Longrightarrow> decoded_exons C a = [] \<Longrightarrow>
     process_alignment C P st a =
       Inr (st\<lparr>logged := logged st @ [Debug_processing_read (query_name a),
                                         Warning_no_aligned_exons (query_name a)]\<rparr>)"
  by (auto simp: process_alignment_def passes_filters_def decoded_exons_def
        AlignmentInfo_init_exons Let_def)

lemma process_alignment_seen:
  "read_tuple C P a = Some t \<Longrightarrow> t \<in> processed_reads st \<Longrightarrow>
     process_alignment C P st a =
       Inr (st\<lparr>logged := logged st @ [Debug_processing_read (query_name a)]\<rparr>)"
  by (auto simp: process_alignment_def read_tuple_def passes_filters_def decoded_exons_def
        AlignmentInfo_init_exons AlignmentInfo_init_start AlignmentInfo_init_end Let_def
        split: if_splits)

lemma process_alignment_new:
  "read_tuple C P a = Some t \<Longrightarrow> t \<notin> processed_reads st \<Longrightarrow>
     process_alignment C P st a =
       assign_read C P
         (st\<lparr>logged := logged st @ [Debug_processing_read (query_name a)],
             processed_reads := insert t (processed_reads st)\<rparr>)
         a (AlignmentInfo_init C a) (fst (snd t)) (snd (snd t))"
  by (auto simp: process_alignment_def read_tuple_def passes_filters_def decoded_exons_def
        AlignmentInfo_init_exons AlignmentInfo_init_start AlignmentInfo_init_end Let_def
        split: if_splits)

lemma read_tuple_None:
  "read_tuple C P a = None \<Longrightarrow>
     reference_id a = - 1 \<or> \<not> passes_filters P a \<or> (passes_filters P a \<and> decoded_exons C a = [])"
  by (auto simp: read_tuple_def split: if_splits)

lemma read_tuple_Some_mapped: "read_tuple C P a = Some t \<Longrightarrow> reference_id a \<noteq> - 1"
  by (auto simp: read_tuple_def passes_filters_def split: if_splits)

lemma process_alignment_total: "\<exists>st'. process_alignment C P st a = Inr st'"
proof (cases "read_tuple C P a")
  case None
  then show ?thesis
    using read_tuple_None[OF None] process_alignment_unmapped process_alignment_filtered
      process_alignment_no_exons by metis
next
  case (Some t)
  then show ?thesis
    using process_alignment_seen process_alignment_new assign_read_total by metis
qed

lemma process_alignment_step:
  assumes "process_alignment C P st a = Inr st'"
  shows "length (assignment_storage st') = length (assignment_storage st) + appended C P (processed_reads st) a"
    and "processed_reads st' = processed_reads st \<union> set_option (read_tuple C P a)"
proof -
  have "length (assignment_storage st') = length (assignment_storage st) + appended C P (processed_reads st) a
        \<and> processed_reads st' = processed_reads st \<union> set_option (read_tuple C P a)"
  proof (cases "read_tuple C P a")
    case None
    consider "reference_id a = - 1" | "reference_id a \<noteq> - 1" "\<not> passes_filters P a"
      | "passes_filters P a" "decoded_exons C a = []"
      using read_tuple_None[OF None] by blast
    then show ?thesis
    proof cases
      case 1
      with assms None show ?thesis by (auto simp: process_alignment_unmapped appended_def)
    next
      case 2
      with assms None show ?thesis by (auto simp: process_alignment_filtered appended_def)
    next
      case 3
      then have "reference_id a \<noteq> - 1" by (simp add: passes_filters_def)
      with 3 assms None show ?thesis by (auto simp: process_alignment_no_exons appended_def)
    qed
  next
    case (Some t)
    have m: "reference_id a \<noteq> - 1" using Some by (rule read_tuple_Some_mapped)
    show ?thesis
    proof (cases "t \<in> processed_reads st")
      case True
      with assms Some m show ?thesis by (auto simp: process_alignment_seen appended_def)
    next
      case False
      from assms have "assign_read C P
         (st\<lparr>logged := logged st @ [Debug_processing_read (query_name a)],
             processed_reads := insert t (processed_reads st)\<rparr>)
         a (AlignmentInfo_init C a) (fst (snd t)) (snd (snd t)) = Inr st'"
        by (simp add: process_alignment_new[OF Some False])
      from assign_read_effect(1,2)[OF this] Some m False show ?thesis
        by (auto simp: appended_def)
    qed
  qed
  then show "length (assignment_storage st') = length (assignment_storage st) + appended C P (processed_reads st) a"
    and "processed_reads st' = processed_reads st \<union> set_option (read_tuple C P a)" by simp_all
qed


lemma assign_read_gene:
  assumes "assign_read C P st a ai rs re = Inr st'"
  shows "gi_chr_id (gene_info st') = gi_chr_id (gene_info st)"
proof -
  obtain ai1 tr where A: "add_polya_info C ai = (ai1, tr)" by (cases "add_polya_info C ai")
  then obtain p where Pp: "ai_polya_info ai1 = Some p" using add_polya_info_Some by blast
  have "gi_chr_id (gene_info (projr (assign_read C P st a ai rs re))) = gi_chr_id (gene_info st)"
    unfolding assign_read_def Let_def
    by (simp add: A Pp add_cage_info_def construct_profiles_info_def split: prod.splits)
  with assms show ?thesis by simp
qed

lemma process_alignment_chr:
  assumes "process_alignment C P st a = Inr st'"
  shows "gi_chr_id (gene_info st') = gi_chr_id (gene_info st)"
proof (cases "read_tuple C P a")
  case None
  consider "reference_id a = - 1" | "reference_id a \<noteq> - 1" "\<not> passes_filters P a"
    | "passes_filters P a" "decoded_exons C a = []"
    using read_tuple_None[OF None] by blast
  then show ?thesis
  proof cases
    case 1
    with assms show ?thesis by (auto simp: process_alignment_unmapped)
  next
    case 2
    with assms show ?thesis by (auto simp: process_alignment_filtered)
  next
    case 3
    with assms show ?thesis by (auto simp: process_alignment_no_exons)
  qed
next
  case (Some t)
  show ?thesis
  proof (cases "t \<in> processed_reads st")
    case True
    with assms Some show ?thesis by (auto simp: process_alignment_seen)
  next
    case False
    from assms have "assign_read C P
       (st\<lparr>logged := logged st @ [Debug_processing_read (query_name a)],
           processed_reads := insert t (processed_reads st)\<rparr>)
       a (AlignmentInfo_init C a) (fst (snd t)) (snd (snd t)) = Inr st'"
      by (simp add: process_alignment_new[OF Some False])
    from assign_read_gene[OF this] show ?thesis by simp
  qed
qed

lemma process_alignments_total: "\<exists>st'. process_alignments C P st als = Inr st'"
proof (induction als arbitrary: st)
  case Nil
  show ?case by simp
next
  case (Cons a als)
  obtain s where "process_alignment C P st a = Inr s" using process_alignment_total by blast
  with Cons.IH[of s] show ?case by simp
qed

lemma process_alignments_chr:
  "process_alignments C P st als = Inr st' \<Longrightarrow> gi_chr_id (gene_info st') = gi_chr_id (gene_info st)"
proof (induction als arbitrary: st)
  case Nil
  then show ?case by simp
next
  case (Cons a als)
  obtain s where s: "process_alignment C P st a = Inr s" using process_alignment_total by blast
  with Cons.prems have "process_alignments C P s als = Inr st'" by simp
  from Cons.IH[OF this] process_alignment_chr[OF s] show ?case by simp
qed

lemma process_alignments_append:
  "process_alignments C P st (xs @ ys) =
     (case process_alignments C P st xs of Inl e \<Rightarrow> Inl e | Inr s \<Rightarrow> process_alignments C P s ys)"
  by (induction xs arbitrary: st) (auto split: sum.splits)

lemma process_regions_flat:
  "process_regions C P bam st rs =
     process_alignments C P st
       (concat (map (\<lambda>genic_region. bam (gi_chr_id (gene_info st)) (fst genic_region) (snd genic_region)) rs))"
proof (induction rs arbitrary: st)
  case Nil
  show ?case by simp
next
  case (Cons r rs)
  obtain s where s: "process_alignments C P st (bam (gi_chr_id (gene_info st)) (fst r) (snd r)) = Inr s"
    using process_alignments_total by blast
  have "gi_chr_id (gene_info s) = gi_chr_id (gene_info st)" using process_alignments_chr[OF s] .
  with s Cons.IH[of s] show ?case by (simp add: process_alignments_append)
qed

lemma process_single_file_flat:
  "process_single_file C P st bam =
     process_alignments C P (st\<lparr>processed_reads := {}\<rparr>) (fetched_alignments bam (gene_info st))"
  by (simp add: process_single_file_def process_regions_flat fetched_alignments_def)

lemma card_new_tuple:
  assumes "finite T"
  shows "card (insert t T - seen) = card (T - insert t seen) + (if t \<in> seen then 0 else 1)"
proof (cases "t \<in> seen")
  case True
  then have "insert t T - seen = T - insert t seen" by blast
  then show ?thesis using True by (simp only: if_True add_0_right)
next
  case False
  then have e: "insert t T - seen = insert t (T - insert t seen)" by blast
  have "finite (T - insert t seen)" using assms by (rule finite_Diff)
  moreover have "t \<notin> T - insert t seen" by blast
  ultimately have "card (insert t (T - insert t seen)) = Suc (card (T - insert t seen))"
    by (rule card_insert_disjoint)
  then show ?thesis using False by (simp only: e if_False Suc_eq_plus1)
qed

lemma process_alignments_count:
  "process_alignments C P st als = Inr st' \<Longrightarrow>
     length (assignment_storage st') =
       length (assignment_storage st) + length (filter (\<lambda>a. reference_id a = - 1) als)
         + card (set (List.map_filter (read_tuple C P) als) - processed_reads st)
     \<and> processed_reads st' = processed_reads st \<union> set (List.map_filter (read_tuple C P) als)"
proof (induction als arbitrary: st)
  case Nil
  then show ?case by (simp add: List.map_filter_simps)
next
  case (Cons a als)
  obtain s where s: "process_alignment C P st a = Inr s" using process_alignment_total by blast
  with Cons.prems have rest: "process_alignments C P s als = Inr st'" by simp
  note step = process_alignment_step[OF s]
  note ih = Cons.IH[OF rest]
  let ?T = "set (List.map_filter (read_tuple C P) als)"
  show ?case
  proof (cases "read_tuple C P a")
    case None
    have mf: "List.map_filter (read_tuple C P) (a # als) = List.map_filter (read_tuple C P) als"
      using None by (simp add: List.map_filter_simps)
    have pr: "processed_reads s = processed_reads st" using step(2) None by simp
    have len: "length (assignment_storage s) =
                 length (assignment_storage st) + (if reference_id a = - 1 then 1 else 0)"
      using step(1) None by (simp add: appended_def)
    from ih show ?thesis unfolding mf pr len by simp
  next
    case (Some t)
    have m: "reference_id a \<noteq> - 1" using Some by (rule read_tuple_Some_mapped)
    have mf: "set (List.map_filter (read_tuple C P) (a # als)) = insert t ?T"
      using Some by (simp add: List.map_filter_simps)
    have pr: "processed_reads s = insert t (processed_reads st)" using step(2) Some by simp
    have len: "length (assignment_storage s) =
                 length (assignment_storage st) + (if t \<in> processed_reads st then 0 else 1)"
      using step(1) Some m by (simp add: appended_def)
    have c: "card (insert t ?T - processed_reads st) =
             card (?T - insert t (processed_reads st)) + (if t \<in> processed_reads st then 0 else 1)"
      by (rule card_new_tuple) simp
    from ih have "length (assignment_storage st') =
        length (assignment_storage st) + length (filter (\<lambda>a. reference_id a = - 1) (a # als))
          + card (insert t ?T - processed_reads st)"
      unfolding pr len c using m by simp
    moreover from ih have "processed_reads st' = processed_reads st \<union> insert t ?T"
      unfolding pr by simp
    ultimately show ?thesis unfolding mf by simp
  qed
qed

lemma in_map_filter: "a \<in> set xs \<Longrightarrow> f a = Some t \<Longrightarrow> t \<in> set (List.map_filter f xs)"
  by (induction xs) (auto simp: List.map_filter_simps split: option.splits)

lemma process_alignments_remembers:
  assumes "process_alignments C P st als = Inr st'" and "a \<in> set als" and "read_tuple C P a = Some t"
  shows "t \<in> processed_reads st'"
proof -
  have "processed_reads st' = processed_reads st \<union> set (List.map_filter (read_tuple C P) als)"
    using process_alignments_count[OF assms(1)] by simp
  moreover have "t \<in> set (List.map_filter (read_tuple C P) als)"
    using assms(2,3) by (rule in_map_filter)
  ultimately show ?thesis by simp
qed


text \<open>
  C10. An alignment with \<open>reference_id = -1\<close> appends \<open>ReadAssignment(read_id, None)\<close> and the
  iteration ends there: whatever its supplementary and secondary flags, whatever decoding it
  would yield and whatever \<open>processed_reads\<close> holds, the state after the iteration is the state
  before it with that one assignment appended, and the loop goes on from there.
\<close>

theorem unmapped_alignment_appended:
  assumes "reference_id a = - 1"
  shows "process_alignment C P st a =
           Inr (st\<lparr>assignment_storage :=
                     assignment_storage st @ [ReadAssignment_init (query_name a) None]\<rparr>)
         \<and> read_id (ReadAssignment_init (query_name a) None) = query_name a
         \<and> assignment_type (ReadAssignment_init (query_name a) None) = None
         \<and> process_alignments C P st (a # rest) =
             process_alignments C P
               (st\<lparr>assignment_storage :=
                     assignment_storage st @ [ReadAssignment_init (query_name a) None]\<rparr>) rest"
  using assms by (simp add: process_alignment_unmapped ReadAssignment_init_def)

theorem unmapped_alignment_appended_witness:
  "process_alignment example_collaborators example_params example_state example_unmapped =
           Inr (example_state\<lparr>assignment_storage :=
                     assignment_storage example_state @ [ReadAssignment_init (query_name example_unmapped) None]\<rparr>)
         \<and> read_id (ReadAssignment_init (query_name example_unmapped) None) = query_name example_unmapped
         \<and> assignment_type (ReadAssignment_init (query_name example_unmapped) None) = None
         \<and> process_alignments example_collaborators example_params example_state (example_unmapped # [example_mapped]) =
             process_alignments example_collaborators example_params
               (example_state\<lparr>assignment_storage :=
                     assignment_storage example_state @ [ReadAssignment_init (query_name example_unmapped) None]\<rparr>) [example_mapped]
         \<and> is_supplementary example_unmapped \<and> is_secondary example_unmapped
         \<and> no_secondary example_params
         \<and> decoded_exons example_collaborators example_unmapped = []"
proof -
  have h: "reference_id example_unmapped = - 1" by (simp add: example_unmapped_def)
  show ?thesis
    using unmapped_alignment_appended[OF h, of example_collaborators example_params example_state "[example_mapped]"]
    by (simp add: example_unmapped_def example_params_def decoded_exons_def example_collaborators_def)
qed

text \<open>
  C8. An alignment that reaches \<open>AlignmentInfo(alignment)\<close> and decodes to no exon is dropped:
  the iteration logs the warning and changes nothing else. The assignment storage, the calls
  made to the assigner, \<open>processed_reads\<close> and \<open>gene_info\<close> are as before, and the loop goes on
  with the next alignment.
\<close>

theorem no_exons_read_dropped:
  assumes "passes_filters P a" and "decoded_exons C a = []"
  shows "\<exists>st'. process_alignment C P st a = Inr st'
           \<and> logged st' = logged st @ [Debug_processing_read (query_name a),
                                        Warning_no_aligned_exons (query_name a)]
           \<and> assignment_storage st' = assignment_storage st
           \<and> assigner_calls st' = assigner_calls st
           \<and> processed_reads st' = processed_reads st
           \<and> gene_info st' = gene_info st
           \<and> process_alignments C P st (a # rest) = process_alignments C P st' rest"
  using process_alignment_no_exons[OF assms, of st] by simp

theorem no_exons_read_dropped_witness:
  "passes_filters example_params example_no_exons
   \<and> decoded_exons example_collaborators example_no_exons = []
   \<and> (\<exists>st'. process_alignment example_collaborators example_params example_state example_no_exons = Inr st'
           \<and> logged st' = logged example_state @ [Debug_processing_read (query_name example_no_exons),
                                        Warning_no_aligned_exons (query_name example_no_exons)]
           \<and> assignment_storage st' = assignment_storage example_state
           \<and> assigner_calls st' = assigner_calls example_state
           \<and> processed_reads st' = processed_reads example_state
           \<and> gene_info st' = gene_info example_state
           \<and> process_alignments example_collaborators example_params example_state (example_no_exons # [example_unmapped])
               = process_alignments example_collaborators example_params st' [example_unmapped])"
proof -
  have h1: "passes_filters example_params example_no_exons"
    by (simp add: passes_filters_def example_params_def example_no_exons_def)
  have h2: "decoded_exons example_collaborators example_no_exons = []"
    by (simp add: decoded_exons_def example_collaborators_def example_no_exons_def)
  from no_exons_read_dropped[OF h1 h2, of example_state "[example_unmapped]"] h1 h2
  show ?thesis by blast
qed

text \<open>
  C9. Let the alignments that \<open>process_single_file\<close> fetches from one file be
  \<open>earlier @ b # later\<close>, where \<open>b\<close> has the \<open>read_tuple\<close> of an alignment \<open>a\<close> among the
  earlier ones. Then, in the state \<open>s\<close> the loop has reached before \<open>b\<close>, the iteration for
  \<open>b\<close> only logs the debug line "Processing read": nothing is appended, the assigner is not
  called, and the loop goes on with the later alignments. Over the whole file the storage
  grows by one assignment for every unmapped alignment and one for every distinct
  \<open>read_tuple\<close>, so no tuple gets a second assignment.
\<close>

theorem one_assignment_per_read_tuple:
  assumes "fetched_alignments bamfile_in (gene_info st) = earlier @ b # later"
    and "a \<in> set earlier"
    and "read_tuple C P a = Some t"
    and "read_tuple C P b = Some t"
  shows "\<exists>s st'.
           process_alignments C P (st\<lparr>processed_reads := {}\<rparr>) earlier = Inr s
         \<and> process_alignment C P s b =
             Inr (s\<lparr>logged := logged s @ [Debug_processing_read (query_name b)]\<rparr>)
         \<and> process_single_file C P st bamfile_in =
             process_alignments C P
               (s\<lparr>logged := logged s @ [Debug_processing_read (query_name b)]\<rparr>) later
         \<and> process_single_file C P st bamfile_in = Inr st'
         \<and> length (assignment_storage st') =
             length (assignment_storage st)
             + length (filter (\<lambda>x. reference_id x = - 1) (earlier @ b # later))
             + card (set (List.map_filter (read_tuple C P) (earlier @ b # later)))"
proof -
  obtain s where s: "process_alignments C P (st\<lparr>processed_reads := {}\<rparr>) earlier = Inr s"
    using process_alignments_total by blast
  have seen: "t \<in> processed_reads s"
    using s assms(2,3) by (rule process_alignments_remembers)
  have skip: "process_alignment C P s b =
                Inr (s\<lparr>logged := logged s @ [Debug_processing_read (query_name b)]\<rparr>)"
    using assms(4) seen by (rule process_alignment_seen)
  have whole: "process_single_file C P st bamfile_in =
                 process_alignments C P (st\<lparr>processed_reads := {}\<rparr>) (earlier @ b # later)"
    by (simp add: process_single_file_flat assms(1))
  have cont: "process_single_file C P st bamfile_in =
                process_alignments C P
                  (s\<lparr>logged := logged s @ [Debug_processing_read (query_name b)]\<rparr>) later"
    by (simp add: whole process_alignments_append s skip)
  obtain st' where st': "process_single_file C P st bamfile_in = Inr st'"
    unfolding whole using process_alignments_total by blast
  have "length (assignment_storage st') =
          length (assignment_storage st)
          + length (filter (\<lambda>x. reference_id x = - 1) (earlier @ b # later))
          + card (set (List.map_filter (read_tuple C P) (earlier @ b # later)))"
    using process_alignments_count[OF st'[unfolded whole]] by simp
  with s skip cont st' show ?thesis by blast
qed



theorem one_assignment_per_read_tuple_witness:
  "\<exists>s st'.
     process_alignments example_collaborators example_params
       (example_state\<lparr>processed_reads := {}\<rparr>)
       [example_mapped, example_no_exons, example_unmapped] = Inr s
   \<and> process_alignment example_collaborators example_params s example_mapped =
       Inr (s\<lparr>logged := logged s @ [Debug_processing_read (query_name example_mapped)]\<rparr>)
   \<and> process_single_file example_collaborators example_params example_state example_bam =
       process_alignments example_collaborators example_params
         (s\<lparr>logged := logged s @ [Debug_processing_read (query_name example_mapped)]\<rparr>) []
   \<and> process_single_file example_collaborators example_params example_state example_bam = Inr st'
   \<and> length (assignment_storage st') =
       length (assignment_storage example_state)
       + length (filter (\<lambda>x. reference_id x = - 1)
                   ([example_mapped, example_no_exons, example_unmapped] @ example_mapped # []))
       + card (set (List.map_filter (read_tuple example_collaborators example_params)
                      ([example_mapped, example_no_exons, example_unmapped] @ example_mapped # [])))"
proof -
  have h1: "fetched_alignments example_bam (gene_info example_state) =
              [example_mapped, example_no_exons, example_unmapped] @ example_mapped # []"
    by (simp add: fetched_alignments_def example_bam_def example_state_def)
  have h2: "example_mapped \<in> set [example_mapped, example_no_exons, example_unmapped]" by simp
  have h3: "read_tuple example_collaborators example_params example_mapped = Some (''read1'', 51, 150)"
    by (simp add: read_tuple_def passes_filters_def decoded_exons_def example_collaborators_def
          example_params_def example_mapped_def)
  show ?thesis
    using one_assignment_per_read_tuple[OF h1 h2 h3 h3] .
qed

lemma example_file_result:
  "map read_id (assignment_storage (projr (process_single_file example_collaborators example_params example_state example_bam)))
     = [''read1'', ''read2'']"
  by (simp add: process_single_file_def example_state_def example_bam_def process_alignment_def
        example_mapped_def example_no_exons_def example_unmapped_def example_params_def
        AlignmentInfo_init_def example_collaborators_def assign_read_def add_polya_info_def
        construct_profiles_info_def cage_given_def ReadAssignment_init_def Let_def)

section \<open>Properties of the profile matcher\<close>


lemma sum_list_indicator:
  "sum_list (map (\<lambda>x. if Q x then (1::nat) else 0) xs) = length (filter Q xs)"
  by (induction xs) simp_all


lemma key_order: "((snd x, fst x) \<le> (snd y, fst y)) = ranked_before x y"
  by (auto simp: ranked_before_def less_eq_prod_def)

lemma sorted_key_ranked:
  "sorted (map (\<lambda>(isoform_id, d). (d, isoform_id)) ds) = sorted_wrt ranked_before ds"
proof -
  have "(\<lambda>x y. (snd x, fst x) \<le> (snd y, fst y)) = ranked_before"
    by (intro ext) (rule key_order)
  then show ?thesis by (simp add: sorted_map case_prod_unfold)
qed

lemma match_profile_accepts:
  assumes "read_gene_profile \<noteq> []"
    and "\<forall>(isoform_id, p) \<in> set isoform_profiles. length p = length read_gene_profile"
  shows "match_profile read_gene_profile isoform_profiles hint =
           Inr (sort_key (\<lambda>(isoform_id, d). (d, isoform_id))
                  (map (\<lambda>(isoform_id, p). (isoform_id, profile_distance read_gene_profile p))
                       (filter (\<lambda>(isoform_id, p). in_hint hint isoform_id) isoform_profiles)))"
  using assms by (auto simp: match_profile_def list_ex_iff)

lemma match_profile_Inr:
  assumes "match_profile read_gene_profile isoform_profiles hint = Inr ds"
  shows "ds = sort_key (\<lambda>(isoform_id, d). (d, isoform_id))
                  (map (\<lambda>(isoform_id, p). (isoform_id, profile_distance read_gene_profile p))
                       (filter (\<lambda>(isoform_id, p). in_hint hint isoform_id) isoform_profiles))"
    and "read_gene_profile \<noteq> []"
    and "\<forall>(isoform_id, p) \<in> set isoform_profiles. length p = length read_gene_profile"
  using assms by (auto simp: match_profile_def list_ex_iff split: if_splits)




text \<open>The count in the spec's wording, as a number of positions.\<close>

lemma claimed_distance_card:
  assumes "length p = length r"
  shows "claimed_distance r p =
           card {i. i < length r \<and> ((r ! i = 1 \<and> p ! i \<noteq> 1) \<or> (r ! i = - 1 \<and> p ! i = 1))}"
proof -
  let ?Q = "\<lambda>(a::int, b::int). (a = 1 \<and> b \<noteq> 1) \<or> (a = - 1 \<and> b = 1)"
  have "claimed_distance r p = length (filter ?Q (zip r p))"
    unfolding claimed_distance_def claimed_position_difference_def
    by (simp add: sum_list_indicator[symmetric] case_prod_unfold)
  also have "\<dots> = card {i. i < length (zip r p) \<and> ?Q (zip r p ! i)}"
    by (rule length_filter_conv_card)
  also have "{i. i < length (zip r p) \<and> ?Q (zip r p ! i)}
             = {i. i < length r \<and> ((r ! i = 1 \<and> p ! i \<noteq> 1) \<or> (r ! i = - 1 \<and> p ! i = 1))}"
    using assms by auto
  finally show ?thesis .
qed



lemma ranked_filter_takeWhile:
  "sorted_wrt ranked_before ds \<Longrightarrow>
     filter (\<lambda>x. snd x = 0) ds = takeWhile (\<lambda>x. snd x = 0) ds"
proof (induction ds)
  case Nil
  show ?case by simp
next
  case (Cons x xs)
  show ?case
  proof (cases "snd x = 0")
    case True
    with Cons show ?thesis by simp
  next
    case False
    have "\<forall>y \<in> set xs. snd y \<noteq> 0"
      using Cons.prems False by (auto simp: ranked_before_def)
    then have "filter (\<lambda>x. snd x = 0) xs = []" by (simp add: filter_empty_conv)
    with False show ?thesis by simp
  qed
qed

lemma ranked_zero_ids_sorted:
  assumes "sorted_wrt ranked_before ds"
  shows "sorted (map fst (filter (\<lambda>x. snd x = 0) ds))"
proof -
  have "sorted_wrt ranked_before (filter (\<lambda>x. snd x = 0) ds)"
    using assms by (rule sorted_wrt_filter)
  then have "sorted_wrt (\<lambda>x y. fst x \<le> fst y) (filter (\<lambda>x. snd x = 0) ds)"
    by (rule sorted_wrt_mono_rel[rotated]) (auto simp: ranked_before_def)
  then show ?thesis by (simp add: sorted_map)
qed

lemma match_profile_sorted:
  assumes "match_profile r m hint = Inr ds"
  shows "sorted_wrt ranked_before ds"
proof -
  have "sorted (map (\<lambda>(isoform_id, d). (d, isoform_id)) ds)"
    unfolding match_profile_Inr(1)[OF assms] by (rule sorted_sort_key)
  then show ?thesis by (simp only: sorted_key_ranked)
qed

lemma find_matching_isoforms_zero_distance_aux:
  assumes "match_profile read_gene_profile isoform_profiles hint = Inr ds"
  shows "\<exists>ids. find_matching_isoforms read_gene_profile isoform_profiles hint = Inr ids
           \<and> set ids = {isoform_id. (isoform_id, 0) \<in> set ds}
           \<and> mset ids = mset (map fst (filter (\<lambda>x. snd x = 0) ds))
           \<and> sorted ids
           \<and> ids = map fst (takeWhile (\<lambda>x. snd x = 0) ds)"
proof -
  let ?z = "map fst (filter (\<lambda>x. snd x = 0) ds)"
  have o: "sorted_wrt ranked_before ds" using assms by (rule match_profile_sorted)
  have sz: "sorted ?z" using o by (rule ranked_zero_ids_sorted)
  have f: "find_matching_isoforms read_gene_profile isoform_profiles hint = Inr (sort ?z)"
    by (simp add: find_matching_isoforms_def assms case_prod_unfold)
  have id: "sort ?z = ?z" using sz by (rule sort_key_id_if_sorted[where f="\<lambda>x. x", simplified])
  have st: "set ?z = {isoform_id. (isoform_id, 0) \<in> set ds}" by force
  have tw: "?z = map fst (takeWhile (\<lambda>x. snd x = 0) ds)"
    by (simp add: ranked_filter_takeWhile[OF o])
  from f id st sz tw show ?thesis by auto
qed

text \<open>
  C2. For every input that \<open>match_profile\<close> accepts, with ranking \<open>ds\<close>,
  \<open>find_matching_isoforms\<close> returns exactly the ids that have distance 0 in \<open>ds\<close>, each as
  often as \<open>ds\<close> has it, in ascending order; they are the ids of the leading entries of \<open>ds\<close>.
\<close>

theorem find_matching_isoforms_zero_distance:
  assumes "match_profile read_gene_profile isoform_profiles hint = Inr ds"
  shows "\<exists>ids. find_matching_isoforms read_gene_profile isoform_profiles hint = Inr ids
           \<and> set ids = {isoform_id. (isoform_id, 0) \<in> set ds}
           \<and> mset ids = mset (map fst (filter (\<lambda>x. snd x = 0) ds))
           \<and> sorted ids
           \<and> ids = map fst (takeWhile (\<lambda>x. snd x = 0) ds)"
  using assms by (rule find_matching_isoforms_zero_distance_aux)

theorem find_matching_isoforms_zero_distance_witness:
  "match_profile test_all_equals_read test_all_equals_profiles None = Inr [(''id1'', 0), (''id2'', 0)]
   \<and> (\<exists>ids. find_matching_isoforms test_all_equals_read test_all_equals_profiles None = Inr ids
           \<and> ids = [''id1'', ''id2'']
           \<and> set ids = {isoform_id. (isoform_id, 0) \<in> set [(''id1'', 0::nat), (''id2'', 0)]}
           \<and> mset ids = mset (map fst (filter (\<lambda>x. snd x = 0) [(''id1'', 0::nat), (''id2'', 0)]))
           \<and> sorted ids
           \<and> ids = map fst (takeWhile (\<lambda>x. snd x = 0) [(''id1'', 0::nat), (''id2'', 0)]))"
proof -
  have h: "match_profile test_all_equals_read test_all_equals_profiles None
             = Inr [(''id1'', 0), (''id2'', 0)]"
    by code_simp
  from find_matching_isoforms_zero_distance[OF h] h show ?thesis by auto
qed

lemma ranked_head_least:
  "sorted_wrt ranked_before ds \<Longrightarrow> x \<in> set ds \<Longrightarrow> snd (hd ds) \<le> snd x"
  by (cases ds) (auto simp: ranked_before_def)

text \<open>
  C4. With a hint, every id of the ranking is in the hint, and the ranking is the one of the
  isoform profiles restricted to the hint: an isoform outside the hint has no part in it, however
  well it scores. Every isoform of the hint is ranked with its distance, the best of them first.
  The ids that \<open>find_matching_isoforms\<close> returns are in the hint as well.
\<close>

theorem hint_restricts_candidates:
  assumes "match_profile read_gene_profile isoform_profiles (Some hint) = Inr ds"
  shows "(\<forall>x \<in> set ds. fst x \<in> hint)
       \<and> match_profile read_gene_profile
           (filter (\<lambda>(isoform_id, p). isoform_id \<in> hint) isoform_profiles) None = Inr ds
       \<and> (\<forall>(isoform_id, p) \<in> set isoform_profiles.
             isoform_id \<in> hint \<longrightarrow>
               (isoform_id, profile_distance read_gene_profile p) \<in> set ds
               \<and> snd (hd ds) \<le> profile_distance read_gene_profile p)
       \<and> (\<exists>ids. find_matching_isoforms read_gene_profile isoform_profiles (Some hint) = Inr ids
                 \<and> set ids \<subseteq> hint)"
proof -
  note M = match_profile_Inr[OF assms]
  let ?h = "filter (\<lambda>(isoform_id, p). isoform_id \<in> hint) isoform_profiles"
  have cands: "filter (\<lambda>(isoform_id, p). in_hint (Some hint) isoform_id) isoform_profiles = ?h"
    by (simp add: in_hint_def)
  have ds: "ds = sort_key (\<lambda>(isoform_id, d). (d, isoform_id))
                   (map (\<lambda>(isoform_id, p). (isoform_id, profile_distance read_gene_profile p)) ?h)"
    using M(1) by (simp only: cands)
  have setds: "set ds = (\<lambda>(isoform_id, p). (isoform_id, profile_distance read_gene_profile p)) ` set ?h"
    unfolding ds by simp
  have a: "\<forall>x \<in> set ds. fst x \<in> hint" unfolding setds by auto
  have lens: "\<forall>(isoform_id, p) \<in> set ?h. length p = length read_gene_profile"
    using M(3) by auto
  have "filter (\<lambda>(isoform_id, p). in_hint None isoform_id) ?h = ?h" by (simp add: in_hint_def)
  then have b: "match_profile read_gene_profile ?h None = Inr ds"
    using match_profile_accepts[OF M(2) lens, of None] ds by simp
  have o: "sorted_wrt ranked_before ds" using assms by (rule match_profile_sorted)
  have c: "\<forall>(isoform_id, p) \<in> set isoform_profiles.
             isoform_id \<in> hint \<longrightarrow>
               (isoform_id, profile_distance read_gene_profile p) \<in> set ds
               \<and> snd (hd ds) \<le> profile_distance read_gene_profile p"
  proof (clarify, intro conjI)
    fix isoform_id p
    assume "(isoform_id, p) \<in> set isoform_profiles" and "isoform_id \<in> hint"
    then show m: "(isoform_id, profile_distance read_gene_profile p) \<in> set ds"
      unfolding setds by force
    from ranked_head_least[OF o m] show "snd (hd ds) \<le> profile_distance read_gene_profile p"
      by simp
  qed
  obtain ids where ids: "find_matching_isoforms read_gene_profile isoform_profiles (Some hint) = Inr ids"
    "set ids = {isoform_id. (isoform_id, 0) \<in> set ds}"
    using find_matching_isoforms_zero_distance_aux[OF assms] by blast
  have d: "set ids \<subseteq> hint" using ids(2) a by force
  from a b c ids(1) d show ?thesis by blast
qed

theorem hint_restricts_candidates_witness:
  "match_profile test_hint_read test_hint_profiles (Some test_hint_hint) = Inr [(''id2'', 1), (''id3'', 2)]
   \<and> match_profile test_hint_read test_hint_profiles None = Inr [(''id1'', 0), (''id2'', 1), (''id3'', 2)]
   \<and> fst ` set [(''id2'', 1::nat), (''id3'', 2)] \<subseteq> test_hint_hint
   \<and> match_profile test_hint_read
           (filter (\<lambda>(isoform_id, p). isoform_id \<in> test_hint_hint) test_hint_profiles) None
        = Inr [(''id2'', 1), (''id3'', 2)]
   \<and> (\<exists>ids. find_matching_isoforms test_hint_read test_hint_profiles (Some test_hint_hint) = Inr ids
             \<and> set ids \<subseteq> test_hint_hint)"
proof -
  have h: "match_profile test_hint_read test_hint_profiles (Some test_hint_hint)
             = Inr [(''id2'', 1), (''id3'', 2)]"
    by code_simp
  have u: "match_profile test_hint_read test_hint_profiles None
             = Inr [(''id1'', 0), (''id2'', 1), (''id3'', 2)]"
    by code_simp
  from hint_restricts_candidates[OF h] h u show ?thesis by auto
qed

subsection \<open>The model on the tests of the repository\<close>

lemma match_profile_test_empty:
  "match_profile [] [(''id1'', [1]), (''id2'', [- 1])] None = Inl ProfileLengthMismatch"
  by code_simp

lemma match_profile_test_different_length:
  "match_profile [- 1, 1, - 1, 0]
     [(''id1'', [- 1, 1, 1, - 1]), (''id2'', [- 1, 1, - 2]), (''id3'', [- 1, 1, 1, 1])]
     (Some {''id2'', ''id3''}) = Inl ProfileLengthMismatch"
  by code_simp

lemma match_profile_test_all_equals_1:
  "match_profile [- 1, 1, - 1, 0] [(''id1'', [- 1, 1, - 1, - 1]), (''id2'', [- 1, 1, - 1, - 2])] None
     = Inr [(''id1'', 0), (''id2'', 0)]"
  by code_simp

lemma match_profile_test_all_equals_2:
  "match_profile [0, 1, - 1, 1] [(''id1'', [- 1, 1, - 1, 1]), (''id2'', [- 2, 1, - 1, 1])] None
     = Inr [(''id1'', 0), (''id2'', 0)]"
  by code_simp

lemma match_profile_test_some_equals_1:
  "match_profile [- 1, 1, - 1, 0] [(''id1'', [- 1, 1, - 1, - 1]), (''id2'', [1, 1, 1, - 1])] None
     = Inr [(''id1'', 0), (''id2'', 2)]"
  by code_simp

lemma match_profile_test_some_equals_2:
  "match_profile [0, 1, 1, - 1, 0]
     [(''id1'', [- 1, 1, 1, 1, - 2]), (''id2'', [- 2, 1, 1, - 1, - 2]), (''id3'', [1, - 1, 1, - 2, - 2])]
     None = Inr [(''id2'', 0), (''id1'', 1), (''id3'', 2)]"
  by code_simp

lemma match_profile_test_no_equals_1:
  "match_profile [- 1, 1, - 1, 0] [(''id1'', [- 2, 1, - 1, - 1]), (''id2'', [1, 1, 1, 1])] None
     = Inr [(''id1'', 1), (''id2'', 2)]"
  by code_simp

lemma match_profile_test_no_equals_2:
  "match_profile [- 1, 1, 1, - 1, 0]
     [(''id1'', [- 1, 1, 1, 1, 1]), (''id2'', [1, 1, - 1, - 1, - 1]), (''id3'', [- 2, - 1, - 1, 1, - 2])]
     None = Inr [(''id1'', 1), (''id2'', 2), (''id3'', 4)]"
  by code_simp

lemma match_profile_test_hint_1:
  "match_profile [- 1, 1, 1, 0]
     [(''id1'', [- 1, 1, 1, - 1]), (''id2'', [1, 1, 1, - 1]), (''id3'', [- 1, - 1, - 1, 1])]
     (Some {''id2'', ''id3''}) = Inr [(''id2'', 1), (''id3'', 2)]"
  by code_simp

lemma match_profile_test_hint_2:
  "match_profile [- 1, 1, - 1, 0]
     [(''id1'', [- 1, 1, 1, - 2]), (''id2'', [- 1, - 1, 1, - 2]), (''id3'', [- 1, 1, - 1, - 2])]
     (Some {''id3''}) = Inr [(''id3'', 0)]"
  by code_simp

lemma find_matching_isoforms_tests:
  "find_matching_isoforms [- 1, 1, - 1, 0] [(''id1'', [- 1, 1, - 1, - 1]), (''id2'', [- 1, 1, - 1, - 2])] None
     = Inr [''id1'', ''id2'']"
  "find_matching_isoforms [0, 1, 1, - 1, 0]
     [(''id1'', [- 1, 1, 1, 1, - 2]), (''id2'', [- 2, 1, 1, - 1, - 2]), (''id3'', [1, - 1, 1, - 2, - 2])]
     None = Inr [''id2'']"
  "find_matching_isoforms [- 1, 1, - 1, 0] [(''id1'', [- 2, 1, - 1, - 1]), (''id2'', [1, 1, 1, 1])] None
     = Inr []"
  "find_matching_isoforms [- 1, 1, - 1, 0]
     [(''id1'', [- 1, 1, 1, - 2]), (''id2'', [- 1, - 1, 1, - 2]), (''id3'', [- 1, 1, - 1, - 2])]
     (Some {''id3''}) = Inr [''id3'']"
  by code_simp+

end
